theory Spec2Isabelle
  imports Complex_Main "HOL-Library.Word"
begin

section \<open>Machine arithmetic and library functions\<close>

text \<open>
  The source computes with \<open>float64\<close> and \<open>complex128\<close> values and calls functions of the
  Python, numpy and numba libraries. Their values and operations are parameters of the model:
  \<open>'f\<close> is the type of \<open>float64\<close> values (finite or not), \<open>'c\<close> the type of \<open>complex128\<close> values,
  and an environment gives the operations on them. Nothing is assumed about rounding, overflow
  or non-finite values. A signed 32-bit integer (\<open>int32\<close>) is a \<^typ>\<open>32 word\<close> read with
  \<^const>\<open>sint\<close>; a Python \<open>int\<close> is an \<^typ>\<open>int\<close>.
\<close>

datatype error = ValueError | AttributeError | TypeError | KeyError | OverflowError

text \<open>A Python number held in an attribute: an \<open>int\<close> or a \<open>float\<close>.\<close>

datatype 'f num = PyInt int | PyFloat 'f

text \<open>
  \<^item> \<open>c_pow z n\<close> is \<^verbatim>\<open>pow(z, n)\<close> on \<open>complex128\<close> and \<open>int32\<close>; \<open>c_add\<close>, \<open>c_mul\<close> are \<open>+\<close>, \<open>*\<close>;
    \<open>c_real\<close>, \<open>c_imag\<close> are \<^verbatim>\<open>z.real\<close>, \<^verbatim>\<open>z.imag\<close>; \<open>c_complex x y\<close> is \<^verbatim>\<open>complex(x, y)\<close>.
  \<^item> \<open>f_square x\<close> is \<^verbatim>\<open>x**2\<close>; \<open>f_add\<close>, \<open>f_sub\<close>, \<open>f_mul\<close>, \<open>f_div\<close> are \<open>+\<close>, \<open>-\<close>, \<open>*\<close>, \<open>/\<close>;
    \<open>f_gt a b\<close> is \<^verbatim>\<open>a > b\<close> and \<open>f_eq a b\<close> is \<^verbatim>\<open>a == b\<close>.
  \<^item> \<open>f_of_int\<close> converts a Python \<open>int\<close> to a float; \<open>f_lit\<close> is the value of a decimal literal
    of the source; \<open>f_int\<close> is \<^verbatim>\<open>int(x)\<close> on a float, which raises \<open>OverflowError\<close> on an infinity
    and \<open>ValueError\<close> on a NaN; \<open>int_eq_float i x\<close> is \<^verbatim>\<open>i == x\<close>.
  \<^item> \<open>int32_of\<close> is the conversion of a Python \<open>int\<close> argument to the \<open>int32\<close> parameter of the
    vectorised function.
  \<^item> \<open>np_interp x x0 x1 y0 y1\<close> is \<^verbatim>\<open>np.interp(x, [x0, x1], [y0, y1])\<close>.
  \<^item> \<open>py_float\<close> is \<^verbatim>\<open>float(text)\<close>, with \<open>None\<close> for a \<open>ValueError\<close>; \<open>py_str\<close> is
    \<^verbatim>\<open>"{0}".format(value)\<close>; \<open>py_fixed x d\<close> is \<^verbatim>\<open>"{0:.{1}f}".format(x, d)\<close>.
\<close>

record ('f, 'c) env =
  c_pow :: "'c \<Rightarrow> 32 word \<Rightarrow> 'c"
  c_add :: "'c \<Rightarrow> 'c \<Rightarrow> 'c"
  c_mul :: "'c \<Rightarrow> 'c \<Rightarrow> 'c"
  c_real :: "'c \<Rightarrow> 'f"
  c_imag :: "'c \<Rightarrow> 'f"
  c_complex :: "'f \<Rightarrow> 'f \<Rightarrow> 'c"
  f_square :: "'f \<Rightarrow> 'f"
  f_add :: "'f \<Rightarrow> 'f \<Rightarrow> 'f"
  f_sub :: "'f \<Rightarrow> 'f \<Rightarrow> 'f"
  f_mul :: "'f \<Rightarrow> 'f \<Rightarrow> 'f"
  f_div :: "'f \<Rightarrow> 'f \<Rightarrow> 'f"
  f_gt :: "'f \<Rightarrow> 'f \<Rightarrow> bool"
  f_eq :: "'f \<Rightarrow> 'f \<Rightarrow> bool"
  f_of_int :: "int \<Rightarrow> 'f"
  f_lit :: "real \<Rightarrow> 'f"
  f_int :: "'f \<Rightarrow> error + int"
  int_eq_float :: "int \<Rightarrow> 'f \<Rightarrow> bool"
  int32_of :: "int \<Rightarrow> error + 32 word"
  np_interp :: "'f \<Rightarrow> 'f \<Rightarrow> 'f \<Rightarrow> 'f \<Rightarrow> 'f \<Rightarrow> 'f"
  py_float :: "string \<Rightarrow> 'f option"
  py_str :: "'f num \<Rightarrow> string"
  py_fixed :: "'f \<Rightarrow> nat \<Rightarrow> string"

section \<open>Escape-time iteration\<close>

text \<open>\<^verbatim>\<open>range(niter)\<close> is the list \<open>0, 1, ..., niter - 1\<close>, empty when \<open>niter \<le> 0\<close>.\<close>

definition py_range :: "int \<Rightarrow> int list" where
  "py_range m = [0..m - 1]"

text \<open>
  The \<^verbatim>\<open>for k in range(niter)\<close> loop of \<^verbatim>\<open>iterate\<close>, with the current values of \<open>z\<close> and of the
  loop variable \<open>k\<close>. \<^verbatim>\<open>break\<close> leaves the loop with \<open>k\<close> at the current index.
\<close>

fun iterate_loop ::
  "('f, 'c) env \<Rightarrow> 'c \<Rightarrow> 32 word \<Rightarrow> 'f \<Rightarrow> 'c \<Rightarrow> int \<Rightarrow> int list \<Rightarrow> int" where
  "iterate_loop e C n zmax2 z k [] = k"
| "iterate_loop e C n zmax2 z k (i # rest) =
     (let z' = c_add e (c_pow e z n) C in
      if f_gt e (f_add e (f_square e (c_imag e z')) (f_square e (c_real e z'))) zmax2 then i
      else iterate_loop e C n zmax2 z' i rest)"

text \<open>
  \<^verbatim>\<open>iterate(z, C, n, zmax, niter)\<close>, compiled by numba in nopython mode with the signature
  \<open>int32(complex128, complex128, int32, float64, int32)\<close>. The local variable \<open>k\<close> of the compiled
  function is a machine integer that is zero before the loop assigns it, so \<^verbatim>\<open>return k\<close>
  yields \<open>0\<close> when the loop body never runs. The result is given as the integer value of the
  returned \<open>int32\<close>; it is \<open>0\<close> or an index below \<open>niter\<close>, so it is never out of range.
\<close>

definition iterate :: "('f, 'c) env \<Rightarrow> 'c \<Rightarrow> 'c \<Rightarrow> 32 word \<Rightarrow> 'f \<Rightarrow> 32 word \<Rightarrow> int" where
  "iterate e z C n zmax niter =
     iterate_loop e C n (f_square e zmax) z 0 (py_range (sint niter))"

text \<open>
  The value of \<open>z\<close> after \<open>j\<close> passes through the loop body, and the bailout test of the source,
  \<^verbatim>\<open>z.imag**2 + z.real**2 > zmax2\<close>, on the value after the \<open>(k+1)\<close>-th pass.
\<close>

definition orbit :: "('f, 'c) env \<Rightarrow> 'c \<Rightarrow> 'c \<Rightarrow> 32 word \<Rightarrow> nat \<Rightarrow> 'c" where
  "orbit e z0 C n j = ((\<lambda>z. c_add e (c_pow e z n) C) ^^ j) z0"

definition bailout :: "('f, 'c) env \<Rightarrow> 'f \<Rightarrow> 'c \<Rightarrow> bool" where
  "bailout e zmax z =
     f_gt e (f_add e (f_square e (c_imag e z)) (f_square e (c_real e z))) (f_square e zmax)"

definition escaped :: "('f, 'c) env \<Rightarrow> 'c \<Rightarrow> 'c \<Rightarrow> 32 word \<Rightarrow> 'f \<Rightarrow> int \<Rightarrow> bool" where
  "escaped e z0 C n zmax k = bailout e zmax (orbit e z0 C n (nat k + 1))"

section \<open>Sample grid\<close>

text \<open>
  \<^verbatim>\<open>np.linspace(start, stop, num)\<close> with the default \<open>endpoint=True\<close>: a negative \<open>num\<close>
  raises \<open>ValueError\<close>; otherwise the indices \<open>0..num-1\<close>, as floats, are multiplied by the step
  \<open>(stop - start) / (num - 1)\<close> (divided by \<open>num - 1\<close> and multiplied by \<open>stop - start\<close> when the
  step is zero; multiplied by \<open>stop - start\<close> when \<open>num - 1\<close> is not positive), \<open>start\<close> is added,
  and for \<open>num > 1\<close> the last sample is overwritten with \<open>stop\<close>.
\<close>

definition linspace :: "('f, 'c) env \<Rightarrow> 'f \<Rightarrow> 'f \<Rightarrow> int \<Rightarrow> error + 'f list" where
  "linspace e start stop num =
     (if num < 0 then Inl ValueError
      else
        let dv = num - 1;
            delta = f_sub e stop start;
            y = map (f_of_int e) (py_range num);
            y = (if dv > 0 then
                   let step = f_div e delta (f_of_int e dv) in
                   if f_eq e step (f_of_int e 0)
                   then map (\<lambda>v. f_mul e (f_div e v (f_of_int e dv)) delta) y
                   else map (\<lambda>v. f_mul e v step) y
                 else map (\<lambda>v. f_mul e v delta) y);
            y = map (\<lambda>v. f_add e v start) y
        in Inr (if num > 1 then y[nat num - 1 := stop] else y))"

text \<open>
  \<^verbatim>\<open>np.meshgrid(x, y)\<close>: two matrices with \<open>len(y)\<close> rows and \<open>len(x)\<close> columns,
  \<open>xx[j][i] = x[i]\<close> and \<open>yy[j][i] = y[j]\<close>.
\<close>

definition meshgrid :: "'f list \<Rightarrow> 'f list \<Rightarrow> 'f list list \<times> 'f list list" where
  "meshgrid x y = (replicate (length y) x, map (\<lambda>v. replicate (length x) v) y)"

text \<open>
  The elementwise \<^verbatim>\<open>xx + 1j*yy\<close>: both float operands are converted to \<open>complex128\<close> with a
  zero imaginary part, \<open>1j\<close> is \<^verbatim>\<open>complex(0, 1)\<close>, and the product and the sum are complex.
\<close>

definition grid_point :: "('f, 'c) env \<Rightarrow> 'f \<Rightarrow> 'f \<Rightarrow> 'c" where
  "grid_point e a b =
     c_add e (c_complex e a (f_lit e 0))
       (c_mul e (c_complex e (f_lit e 0) (f_lit e 1)) (c_complex e b (f_lit e 0)))"

text \<open>\<^verbatim>\<open>complex_grid(xlim, ylim, nx, ny)\<close>.\<close>

definition complex_grid ::
  "('f, 'c) env \<Rightarrow> 'f \<times> 'f \<Rightarrow> 'f \<times> 'f \<Rightarrow> int \<Rightarrow> int \<Rightarrow> error + 'c list list" where
  "complex_grid e xlim ylim nx ny =
     (case linspace e (fst xlim) (snd xlim) nx of
        Inl err \<Rightarrow> Inl err
      | Inr x \<Rightarrow>
         (case linspace e (fst ylim) (snd ylim) ny of
            Inl err \<Rightarrow> Inl err
          | Inr y \<Rightarrow>
             (case meshgrid x y of
                (xx, yy) \<Rightarrow> Inr (map2 (\<lambda>xrow yrow. map2 (grid_point e) xrow yrow) xx yy))))"

section \<open>Whole-grid evaluation\<close>

text \<open>
  An argument of the vectorised \<^verbatim>\<open>fractal\<close> is a scalar or a two-dimensional array; a scalar
  is broadcast against an array. Two arrays are combined elementwise (in \<^verbatim>\<open>compute_image\<close>
  exactly one of the first two arguments is an array). The exponent, the bailout radius and
  the iteration cap are always scalars.
\<close>

datatype 'a nd = Scalar 'a | Array "'a list list"

fun fractal ::
  "('f, 'c) env \<Rightarrow> 'c nd \<Rightarrow> 'c nd \<Rightarrow> 32 word \<Rightarrow> 'f \<Rightarrow> 32 word \<Rightarrow> int nd" where
  "fractal e (Scalar z) (Scalar C) n zmax niter = Scalar (iterate e z C n zmax niter)"
| "fractal e (Array zz) (Scalar C) n zmax niter =
     Array (map (map (\<lambda>z. iterate e z C n zmax niter)) zz)"
| "fractal e (Scalar z) (Array CC) n zmax niter =
     Array (map (map (\<lambda>C. iterate e z C n zmax niter)) CC)"
| "fractal e (Array zz) (Array CC) n zmax niter =
     Array (map2 (map2 (\<lambda>z C. iterate e z C n zmax niter)) zz CC)"

section \<open>Application state\<close>

text \<open>A number used where a float is required.\<close>

fun to_float :: "('f, 'c) env \<Rightarrow> 'f num \<Rightarrow> 'f" where
  "to_float e (PyInt i) = f_of_int e i"
| "to_float e (PyFloat r) = r"

text \<open>Python's \<open>a - b\<close>: exact on two integers, a float operation otherwise.\<close>

fun num_sub :: "('f, 'c) env \<Rightarrow> 'f num \<Rightarrow> 'f num \<Rightarrow> 'f num" where
  "num_sub e (PyInt a) (PyInt b) = PyInt (a - b)"
| "num_sub e a b = PyFloat (f_sub e (to_float e a) (to_float e b))"

text \<open>
  The test \<^verbatim>\<open>int(value) == value\<close> of \<^verbatim>\<open>set_entry_value\<close>; on a float, \<^verbatim>\<open>int(value)\<close> may raise.
\<close>

fun is_integral :: "('f, 'c) env \<Rightarrow> 'f num \<Rightarrow> error + bool" where
  "is_integral e (PyInt i) = Inr True"
| "is_integral e (PyFloat r) =
     (case f_int e r of Inl err \<Rightarrow> Inl err | Inr i \<Rightarrow> Inr (int_eq_float e i r))"

text \<open>\<^verbatim>\<open>text.rstrip("0")\<close>.\<close>

definition rstrip0 :: "string \<Rightarrow> string" where
  "rstrip0 t = rev (dropWhile (\<lambda>c. c = CHR ''0'') (rev t))"

text \<open>
  What the figure shows after \<^verbatim>\<open>display_image\<close>: the iteration-count matrix handed to
  \<^verbatim>\<open>imshow\<close>, its extent and the colour map.
\<close>

record 'f figure =
  img :: "int nd"
  extent :: "'f num \<times> 'f num \<times> 'f num \<times> 'f num"
  cmap_name :: string

text \<open>
  The application object. \<open>attrs\<close> holds the numeric instance attributes by name (the
  parameters \<open>n\<close>, \<open>x\<close>, ..., their \<open>_default\<close> copies and the gesture positions
  \<open>posx1\<close>, ...; a missing name is an attribute that has not been assigned). \<open>pos_alias\<close> tells
  that \<open>posx2\<close>, \<open>posy2\<close> are the very objects \<open>posx1\<close>, \<open>posy1\<close> (as after \<^verbatim>\<open>self.posx2 = self.posx1\<close>).
  \<open>entries\<close> is the dictionary of entry widgets in insertion order, each with its current
  text. \<open>namecombo\<close> is the active text of the mode selector. \<open>fig\<close> is \<open>None\<close> while the
  attribute \<open>fig\<close> does not exist. \<open>draws\<close> counts the redisplay requests
  \<^verbatim>\<open>canvas.draw_idle()\<close>.
\<close>

record 'f app =
  attrs :: "string \<rightharpoonup> 'f num"
  pos_alias :: bool
  entries :: "(string \<times> string) list"
  namecombo :: "string option"
  cmap :: string
  fig :: "'f figure option"
  draws :: nat

definition digits :: nat where
  "digits = 12"

definition setattr :: "string \<Rightarrow> 'f num \<Rightarrow> 'f app \<Rightarrow> 'f app" where
  "setattr name v s = s\<lparr>attrs := (attrs s)(name \<mapsto> v)\<rparr>"

definition getattr :: "'f app \<Rightarrow> string \<Rightarrow> error + 'f num" where
  "getattr s name = (case attrs s name of None \<Rightarrow> Inl AttributeError | Some v \<Rightarrow> Inr v)"

definition bind_err :: "error + 'a \<Rightarrow> ('a \<Rightarrow> error + 'b) \<Rightarrow> error + 'b" where
  "bind_err m f = (case m of Inl err \<Rightarrow> Inl err | Inr v \<Rightarrow> f v)"

text \<open>An attribute passed to an \<open>int32\<close> parameter or used as a sample count.\<close>

definition as_int :: "'f num \<Rightarrow> error + int" where
  "as_int v = (case v of PyInt i \<Rightarrow> Inr i | PyFloat r \<Rightarrow> Inl TypeError)"

text \<open>\<^verbatim>\<open>entry.set_text(text)\<close> on the entry widget called \<open>name\<close>.\<close>

definition set_text :: "string \<Rightarrow> string \<Rightarrow> (string \<times> string) list \<Rightarrow> (string \<times> string) list" where
  "set_text name text es = map (\<lambda>(k, t). (k, if k = name then text else t)) es"

text \<open>
  The outcome of a handler: it returns, or it raises with the object left as it was at the
  point of the raise.
\<close>

datatype 'f outcome = Done "'f app" | Raised error "'f app"

fun state_of :: "'f outcome \<Rightarrow> 'f app" where
  "state_of (Done s) = s"
| "state_of (Raised err s) = s"

definition then_do :: "'f outcome \<Rightarrow> ('f app \<Rightarrow> 'f outcome) \<Rightarrow> 'f outcome" where
  "then_do r f = (case r of Raised err s \<Rightarrow> Raised err s | Done s \<Rightarrow> f s)"

text \<open>Running a computation that may raise before the object is changed.\<close>

definition try_get :: "'f app \<Rightarrow> error + 'a \<Rightarrow> ('a \<Rightarrow> 'f outcome) \<Rightarrow> 'f outcome" where
  "try_get s m f = (case m of Inl err \<Rightarrow> Raised err s | Inr v \<Rightarrow> f v)"

text \<open>The text \<open>value_str\<close> that \<^verbatim>\<open>set_entry_value\<close> computes for a value.\<close>

definition format_value :: "('f, 'c) env \<Rightarrow> 'f num \<Rightarrow> error + string" where
  "format_value e v =
     bind_err (is_integral e v) (\<lambda>b.
       Inr (if b then py_str e v else rstrip0 (py_fixed e (to_float e v) digits)))"

definition set_entry_value :: "('f, 'c) env \<Rightarrow> string \<Rightarrow> 'f app \<Rightarrow> 'f outcome" where
  "set_entry_value e name s =
     try_get s (getattr s name) (\<lambda>v.
     try_get s (format_value e v) (\<lambda>value_str.
       Done (s\<lparr>entries := set_text name value_str (entries s)\<rparr>)))"

text \<open>The loop \<^verbatim>\<open>for entry in self.entries.values(): self.set_entry_value(entry)\<close>.\<close>

fun set_entry_values :: "('f, 'c) env \<Rightarrow> string list \<Rightarrow> 'f app \<Rightarrow> 'f outcome" where
  "set_entry_values e [] s = Done s"
| "set_entry_values e (name # rest) s =
     then_do (set_entry_value e name s) (set_entry_values e rest)"

datatype dtype = DInt | DFloat

text \<open>
  \<^verbatim>\<open>get_entry_value\<close>, on the text of the entry: \<open>None\<close> when \<^verbatim>\<open>float(text)\<close> or \<^verbatim>\<open>int(val)\<close>
  raises \<open>ValueError\<close>; any other exception of \<^verbatim>\<open>int(val)\<close> propagates.
\<close>

definition get_entry_value :: "('f, 'c) env \<Rightarrow> string \<Rightarrow> dtype \<Rightarrow> error + 'f num option" where
  "get_entry_value e text dt =
     (case py_float e text of
        None \<Rightarrow> Inr None
      | Some val \<Rightarrow>
          if dt = DInt then
            (case f_int e val of
               Inl err \<Rightarrow> if err = ValueError then Inr None else Inl err
             | Inr i \<Rightarrow> Inr (Some (PyInt i)))
          else Inr (Some (PyFloat val)))"

section \<open>Image computation and display\<close>

definition getattr_int :: "'f app \<Rightarrow> string \<Rightarrow> error + int" where
  "getattr_int s name = bind_err (getattr s name) as_int"

text \<open>
  \<^verbatim>\<open>compute_image\<close>. The call of the vectorised \<^verbatim>\<open>fractal\<close> converts the exponent and the
  iteration cap to \<open>int32\<close> and the bailout radius to \<open>float64\<close>. The result is \<open>None\<close> when the
  mode text is neither of the two names.
\<close>

definition compute_image :: "('f, 'c) env \<Rightarrow> 'f app \<Rightarrow> error + int nd option" where
  "compute_image e s =
     bind_err (getattr s ''x'') (\<lambda>x.
     bind_err (getattr s ''y'') (\<lambda>y.
     bind_err (getattr s ''xmin'') (\<lambda>xmin.
     bind_err (getattr s ''xmax'') (\<lambda>xmax.
     bind_err (getattr s ''ymin'') (\<lambda>ymin.
     bind_err (getattr s ''ymax'') (\<lambda>ymax.
     bind_err (getattr_int s ''xsize'') (\<lambda>xsize.
     bind_err (getattr_int s ''ysize'') (\<lambda>ysize.
     bind_err (complex_grid e (to_float e xmin, to_float e xmax)
                 (to_float e ymin, to_float e ymax) xsize ysize) (\<lambda>zz.
       let C = c_complex e (to_float e x) (to_float e y); text = namecombo s in
       if text = Some ''Julia'' then
         bind_err (getattr_int s ''n'') (\<lambda>n.
         bind_err (getattr s ''zmax'') (\<lambda>zmax.
         bind_err (getattr_int s ''niter'') (\<lambda>niter.
         bind_err (int32_of e n) (\<lambda>n32.
         bind_err (int32_of e niter) (\<lambda>niter32.
           Inr (Some (fractal e (Array zz) (Scalar C) n32 (to_float e zmax) niter32)))))))
       else if text = Some ''Mandelbrot'' then
         bind_err (getattr_int s ''n'') (\<lambda>n.
         bind_err (getattr s ''zmax'') (\<lambda>zmax.
         bind_err (getattr_int s ''niter'') (\<lambda>niter.
         bind_err (int32_of e n) (\<lambda>n32.
         bind_err (int32_of e niter) (\<lambda>niter32.
           Inr (Some (fractal e (Scalar C) (Array zz) n32 (to_float e zmax) niter32)))))))
       else Inr None)))))))))"

text \<open>
  \<^verbatim>\<open>display_image\<close>: the image is computed, the figure (which must exist) is cleared and the
  image is shown with the current bounds as extent. An image of \<open>None\<close> is rejected by
  \<^verbatim>\<open>imshow\<close>.
\<close>

definition display_image :: "('f, 'c) env \<Rightarrow> 'f app \<Rightarrow> 'f outcome" where
  "display_image e s =
     try_get s (compute_image e s) (\<lambda>im.
       case fig s of
         None \<Rightarrow> Raised AttributeError s
       | Some f \<Rightarrow>
          try_get s (getattr s ''xmin'') (\<lambda>xmin.
          try_get s (getattr s ''xmax'') (\<lambda>xmax.
          try_get s (getattr s ''ymin'') (\<lambda>ymin.
          try_get s (getattr s ''ymax'') (\<lambda>ymax.
            case im of
              None \<Rightarrow> Raised TypeError s
            | Some m \<Rightarrow>
                Done (s\<lparr>fig := Some \<lparr>img = m, extent = (xmin, xmax, ymin, ymax),
                                      cmap_name = cmap s\<rparr>\<rparr>))))))"

definition int_names :: "string list" where
  "int_names = [''n'', ''niter'', ''xsize'', ''ysize'']"

definition dtype_of :: "string \<Rightarrow> dtype" where
  "dtype_of name = (if name \<in> set int_names then DInt else DFloat)"

text \<open>The first loop of \<^verbatim>\<open>update_image\<close>, over the items of \<^verbatim>\<open>self.entries\<close>.\<close>

fun read_entries :: "('f, 'c) env \<Rightarrow> (string \<times> string) list \<Rightarrow> 'f app \<Rightarrow> 'f outcome" where
  "read_entries e [] s = Done s"
| "read_entries e ((name, text) # rest) s =
     try_get s (get_entry_value e text (dtype_of name)) (\<lambda>val.
       read_entries e rest (case val of None \<Rightarrow> s | Some v \<Rightarrow> setattr name v s))"

definition draw_idle :: "'f app \<Rightarrow> 'f app" where
  "draw_idle s = s\<lparr>draws := draws s + 1\<rparr>"

definition update_image :: "('f, 'c) env \<Rightarrow> 'f app \<Rightarrow> 'f outcome" where
  "update_image e s =
     then_do (read_entries e (entries s) s) (\<lambda>s1.
     then_do (set_entry_values e (map fst (entries s1)) s1) (\<lambda>s2.
     then_do (display_image e s2) (\<lambda>s3.
       Done (draw_idle s3))))"

section \<open>Event handlers\<close>

text \<open>
  The two conversions from a pixel coordinate to a plane coordinate that the pointer handlers
  compute inline: \<^verbatim>\<open>np.interp(event.x, [0, self.xsize-1], [self.xmin, self.xmax])\<close> and its
  counterpart on the other axis.
\<close>

definition plane_x :: "('f, 'c) env \<Rightarrow> 'f app \<Rightarrow> 'f \<Rightarrow> error + 'f" where
  "plane_x e s ex =
     bind_err (getattr s ''xsize'') (\<lambda>xsize.
     bind_err (getattr s ''xmin'') (\<lambda>xmin.
     bind_err (getattr s ''xmax'') (\<lambda>xmax.
       Inr (np_interp e ex (f_of_int e 0) (to_float e (num_sub e xsize (PyInt 1)))
              (to_float e xmin) (to_float e xmax)))))"

definition plane_y :: "('f, 'c) env \<Rightarrow> 'f app \<Rightarrow> 'f \<Rightarrow> error + 'f" where
  "plane_y e s ey =
     bind_err (getattr s ''ysize'') (\<lambda>ysize.
     bind_err (getattr s ''ymin'') (\<lambda>ymin.
     bind_err (getattr s ''ymax'') (\<lambda>ymax.
       Inr (np_interp e ey (f_of_int e 0) (to_float e (num_sub e ysize (PyInt 1)))
              (to_float e ymin) (to_float e ymax)))))"

text \<open>
  \<^verbatim>\<open>on_canvas_button_press\<close>: the second position is made the same object as the first.
\<close>

definition on_canvas_button_press :: "('f, 'c) env \<Rightarrow> 'f \<Rightarrow> 'f \<Rightarrow> 'f app \<Rightarrow> 'f outcome" where
  "on_canvas_button_press e ex ey s =
     try_get s (plane_x e s ex) (\<lambda>posx1.
       let s1 = setattr ''posx1'' (PyFloat posx1) s in
       try_get s1 (plane_y e s1 ey) (\<lambda>posy1.
         let s2 = setattr ''posy1'' (PyFloat posy1) s1;
             s3 = setattr ''posx2'' (PyFloat posx1) s2;
             s4 = setattr ''posy2'' (PyFloat posy1) s3
         in Done (s4\<lparr>pos_alias := True\<rparr>)))"

text \<open>
  \<^verbatim>\<open>on_canvas_motion_notify\<close>; \<open>pressed\<close> and \<open>ctrl\<close> are the two tests on \<^verbatim>\<open>event.state\<close>.
  The second position becomes a fresh value. The preview rectangles are patches of the
  figure's axes and are not part of the model; their construction reads \<open>posx1\<close> and \<open>posy1\<close>.
\<close>

definition on_canvas_motion_notify ::
  "('f, 'c) env \<Rightarrow> 'f \<Rightarrow> 'f \<Rightarrow> bool \<Rightarrow> bool \<Rightarrow> 'f app \<Rightarrow> 'f outcome" where
  "on_canvas_motion_notify e ex ey pressed ctrl s =
     try_get s (plane_x e s ex) (\<lambda>posx2.
       let s1 = (setattr ''posx2'' (PyFloat posx2) s)\<lparr>pos_alias := False\<rparr> in
       try_get s1 (plane_y e s1 ey) (\<lambda>posy2.
         let s2 = setattr ''posy2'' (PyFloat posy2) s1 in
         if pressed then
           try_get s2 (getattr s2 ''posy1'') (\<lambda>posy1.
           try_get s2 (getattr s2 ''posx1'') (\<lambda>posx1.
             let s3 = (if ctrl
                       then setattr ''posy2''
                              (PyFloat (f_sub e (f_add e (to_float e posy1) posx2) (to_float e posx1))) s2
                       else s2)
             in Done (draw_idle s3)))
         else Done s2))"

text \<open>The zoom factors \<^verbatim>\<open>mapping = {1: 0.75, 3: 1.5}\<close>.\<close>

definition mapping :: "('f, 'c) env \<Rightarrow> int \<rightharpoonup> 'f" where
  "mapping e = [1 \<mapsto> f_lit e 0.75, 3 \<mapsto> f_lit e 1.5]"

text \<open>
  The comparison \<^verbatim>\<open>(self.posx1, self.posy1) == (self.posx2, self.posy2)\<close>: two components are
  equal when they are the same object or compare equal.
\<close>

definition same_position :: "('f, 'c) env \<Rightarrow> bool \<Rightarrow> 'f num \<Rightarrow> 'f num \<Rightarrow> 'f num \<Rightarrow> 'f num \<Rightarrow> bool" where
  "same_position e alias posx1 posy1 posx2 posy2 \<longleftrightarrow>
     (alias \<or> f_eq e (to_float e posx1) (to_float e posx2)) \<and>
     (alias \<or> f_eq e (to_float e posy1) (to_float e posy2))"

definition on_canvas_button_release ::
  "('f, 'c) env \<Rightarrow> 'f \<Rightarrow> 'f \<Rightarrow> int \<Rightarrow> 'f app \<Rightarrow> 'f outcome" where
  "on_canvas_button_release e ex ey button s =
     then_do
       (case mapping e button of
          None \<Rightarrow> Done s
        | Some factor \<Rightarrow>
            try_get s (getattr s ''posx1'') (\<lambda>posx1.
            try_get s (getattr s ''posy1'') (\<lambda>posy1.
            try_get s (getattr s ''posx2'') (\<lambda>posx2.
            try_get s (getattr s ''posy2'') (\<lambda>posy2.
              then_do
                (if same_position e (pos_alias s) posx1 posy1 posx2 posy2 then
                   try_get s (plane_x e s ex) (\<lambda>xc.
                   try_get s (plane_y e s ey) (\<lambda>yc.
                   try_get s (getattr s ''xmax'') (\<lambda>xmax.
                   try_get s (getattr s ''xmin'') (\<lambda>xmin.
                   try_get s (getattr s ''ymax'') (\<lambda>ymax.
                   try_get s (getattr s ''ymin'') (\<lambda>ymin.
                     let xlen = f_mul e factor (to_float e (num_sub e xmax xmin));
                         ylen = f_mul e factor (to_float e (num_sub e ymax ymin));
                         s1 = setattr ''xmin'' (PyFloat (f_sub e xc (f_div e xlen (f_lit e 2)))) s;
                         s2 = setattr ''xmax'' (PyFloat (f_add e xc (f_div e xlen (f_lit e 2)))) s1;
                         s3 = setattr ''ymin'' (PyFloat (f_sub e yc (f_div e ylen (f_lit e 2)))) s2;
                         s4 = setattr ''ymax'' (PyFloat (f_add e yc (f_div e ylen (f_lit e 2)))) s3
                     in Done s4))))))
                 else
                   let s1 = setattr ''xmin'' posx1 s;
                       s2 = setattr ''xmax'' posx2 s1;
                       s3 = setattr ''ymin'' posy1 s2;
                       s4 = setattr ''ymax'' posy2 s3
                   in Done s4)
                (\<lambda>s5. set_entry_values e (map fst (entries s5)) s5))))))
       (update_image e)"

text \<open>
  \<^verbatim>\<open>on_namecombo_changed\<close>; the selector's active text has been set by the widget before the
  handler runs. \<^verbatim>\<open>self.entries['x']\<close> raises \<open>KeyError\<close> when there is no such entry.
\<close>

definition entry_lookup :: "'f app \<Rightarrow> string \<Rightarrow> (string \<Rightarrow> 'f outcome) \<Rightarrow> 'f outcome" where
  "entry_lookup s name f =
     (if name \<in> fst ` set (entries s) then f name else Raised KeyError s)"

definition on_namecombo_changed :: "('f, 'c) env \<Rightarrow> 'f app \<Rightarrow> 'f outcome" where
  "on_namecombo_changed e s =
     then_do
       (if namecombo s = Some ''Mandelbrot'' then
          let s1 = setattr ''x'' (PyInt 0) s;
              s2 = setattr ''y'' (PyInt 0) s1
          in then_do (entry_lookup s2 ''x'' (\<lambda>name. set_entry_value e name s2)) (\<lambda>s3.
               entry_lookup s3 ''y'' (\<lambda>name. set_entry_value e name s3))
        else Done s)
       (\<lambda>s4. if fig s4 \<noteq> None then update_image e s4 else Done s4)"

definition on_button_apply_clicked :: "('f, 'c) env \<Rightarrow> 'f app \<Rightarrow> 'f outcome" where
  "on_button_apply_clicked e s = update_image e s"

text \<open>The loop of \<^verbatim>\<open>on_button_reset_clicked\<close> over the items of \<^verbatim>\<open>self.entries\<close>.\<close>

fun reset_entries :: "('f, 'c) env \<Rightarrow> string list \<Rightarrow> 'f app \<Rightarrow> 'f outcome" where
  "reset_entries e [] s = Done s"
| "reset_entries e (name # rest) s =
     try_get s (getattr s (name @ ''_default'')) (\<lambda>v.
       then_do (set_entry_value e name (setattr name v s)) (reset_entries e rest))"

definition on_button_reset_clicked :: "('f, 'c) env \<Rightarrow> 'f app \<Rightarrow> 'f outcome" where
  "on_button_reset_clicked e s = reset_entries e (map fst (entries s)) s"

text \<open>\<^verbatim>\<open>on_cmapcombo_changed\<close> with the name of the selected row.\<close>

definition on_cmapcombo_changed :: "('f, 'c) env \<Rightarrow> string \<Rightarrow> 'f app \<Rightarrow> 'f outcome" where
  "on_cmapcombo_changed e name s =
     (let s1 = s\<lparr>cmap := name\<rparr> in
      if fig s1 \<noteq> None then then_do (display_image e s1) (\<lambda>s2. Done (draw_idle s2))
      else Done s1)"

definition on_button_save_clicked :: "'f app \<Rightarrow> 'f outcome" where
  "on_button_save_clicked s = Done s"

section \<open>Start-up and the event loop\<close>

text \<open>The keys of \<^verbatim>\<open>self.entries\<close> in insertion order: the left panel's names, then the right panel's.\<close>

definition entry_names :: "string list" where
  "entry_names = [''n'', ''x'', ''y'', ''zmax'', ''niter'',
                  ''xmin'', ''xmax'', ''ymin'', ''ymax'', ''xsize'', ''ysize'']"

text \<open>
  The object after the assignments of \<^verbatim>\<open>__init__\<close> and the construction of the two parameter
  panels: the entries exist with empty text, the mode selector shows its first item (its
  handler found \<open>Julia\<close> and no figure, and did nothing), the colour map is the first name
  \<open>cmap0\<close> of the sorted list of colour maps, and no figure exists yet.
\<close>

definition init_app :: "('f, 'c) env \<Rightarrow> string \<Rightarrow> 'f app" where
  "init_app e cmap0 =
     \<lparr>attrs = [''xsize'' \<mapsto> PyInt 600, ''ysize'' \<mapsto> PyInt 600,
               ''xmin'' \<mapsto> PyFloat (f_lit e (-1.5)), ''xmax'' \<mapsto> PyFloat (f_lit e 1.5),
               ''ymin'' \<mapsto> PyFloat (f_lit e (-1.5)), ''ymax'' \<mapsto> PyFloat (f_lit e 1.5),
               ''x'' \<mapsto> PyFloat (f_lit e (-0.4)), ''y'' \<mapsto> PyFloat (f_lit e 0.6),
               ''n'' \<mapsto> PyInt 2, ''zmax'' \<mapsto> PyFloat (f_lit e 4.0), ''niter'' \<mapsto> PyInt 256],
      pos_alias = False,
      entries = map (\<lambda>name. (name, [])) entry_names,
      namecombo = Some ''Julia'',
      cmap = cmap0,
      fig = None,
      draws = 0\<rparr>"

text \<open>
  The loop of \<^verbatim>\<open>setup_interface\<close> that copies the current value of every entry's attribute to
  its \<open>_default\<close> attribute and fills the entry's text.
\<close>

fun capture_defaults :: "('f, 'c) env \<Rightarrow> string list \<Rightarrow> 'f app \<Rightarrow> 'f outcome" where
  "capture_defaults e [] s = Done s"
| "capture_defaults e (name # rest) s =
     try_get s (getattr s name) (\<lambda>v.
       then_do (set_entry_value e name (setattr (name @ ''_default'') v s))
         (capture_defaults e rest))"

text \<open>A freshly created figure shows nothing.\<close>

definition new_figure :: "'f app \<Rightarrow> 'f figure" where
  "new_figure s = \<lparr>img = Array [], extent = (PyInt 0, PyInt 1, PyInt 0, PyInt 1), cmap_name = cmap s\<rparr>"

definition startup :: "('f, 'c) env \<Rightarrow> string \<Rightarrow> 'f outcome" where
  "startup e cmap0 =
     then_do (capture_defaults e (map fst (entries (init_app e cmap0))) (init_app e cmap0)) (\<lambda>s1.
       let s2 = s1\<lparr>fig := Some (new_figure s1)\<rparr> in display_image e s2)"

text \<open>
  The events delivered by the toolkit's main loop: typing into an entry, the three buttons,
  a change of one of the two selectors and the pointer events on the canvas.
\<close>

datatype 'f event =
    EntryEdited string string
  | ApplyClicked
  | ResetClicked
  | SaveClicked
  | ModeChanged string
  | CmapChanged string
  | ButtonPress 'f 'f
  | MotionNotify 'f 'f bool bool
  | ButtonRelease 'f 'f int

fun handle :: "('f, 'c) env \<Rightarrow> 'f event \<Rightarrow> 'f app \<Rightarrow> 'f outcome" where
  "handle e (EntryEdited name text) s = Done (s\<lparr>entries := set_text name text (entries s)\<rparr>)"
| "handle e ApplyClicked s = on_button_apply_clicked e s"
| "handle e ResetClicked s = on_button_reset_clicked e s"
| "handle e SaveClicked s = on_button_save_clicked s"
| "handle e (ModeChanged text) s = on_namecombo_changed e (s\<lparr>namecombo := Some text\<rparr>)"
| "handle e (CmapChanged name) s = on_cmapcombo_changed e name s"
| "handle e (ButtonPress ex ey) s = on_canvas_button_press e ex ey s"
| "handle e (MotionNotify ex ey pressed ctrl) s = on_canvas_motion_notify e ex ey pressed ctrl s"
| "handle e (ButtonRelease ex ey button) s = on_canvas_button_release e ex ey button s"

text \<open>
  The main loop continues after a handler has raised, with the object as the handler left it.
\<close>

definition run :: "('f, 'c) env \<Rightarrow> 'f event list \<Rightarrow> 'f app \<Rightarrow> 'f app" where
  "run e evs s = fold (\<lambda>ev s'. state_of (handle e ev s')) evs s"

section \<open>An exact instance of the environment\<close>

text \<open>
  An environment that computes exactly on real and complex numbers, with decimal text
  conversions. It agrees with the \<open>float64\<close> operations wherever every value involved is a
  \<open>float64\<close> number and no operation rounds; the handlers are evaluated in it on such inputs.

  \<open>interp\<close> follows \<^verbatim>\<open>np.interp\<close> on two nodes: values beyond the last node give \<open>y1\<close>, values
  before the first give \<open>y0\<close>, the last node itself gives \<open>y1\<close>, the first node gives \<open>y0\<close>, and
  anything else is interpolated linearly from the first node.
\<close>

definition interp :: "real \<Rightarrow> real \<Rightarrow> real \<Rightarrow> real \<Rightarrow> real \<Rightarrow> real" where
  "interp x x0 x1 y0 y1 =
     (if x > x1 then y1
      else if x < x0 then y0
      else if x \<ge> x1 then y1
      else if x0 = x then y0
      else (y1 - y0) / (x1 - x0) * (x - x0) + y0)"

definition trunc :: "real \<Rightarrow> int" where
  "trunc r = (if 0 \<le> r then \<lfloor>r\<rfloor> else \<lceil>r\<rceil>)"

definition exact_int32 :: "int \<Rightarrow> error + 32 word" where
  "exact_int32 i = (if - (2 ^ 31) \<le> i \<and> i < 2 ^ 31 then Inr (word_of_int i) else Inl OverflowError)"

definition digit_of :: "char \<rightharpoonup> int" where
  "digit_of = map_of (zip ''0123456789'' [0, 1, 2, 3, 4, 5, 6, 7, 8, 9])"

definition char_of_digit :: "int \<Rightarrow> char" where
  "char_of_digit d = ''0123456789'' ! nat d"

text \<open>The decimal digits of a non-negative integer, and its last \<open>k\<close> digits.\<close>

function show_nat :: "int \<Rightarrow> string" where
  "show_nat n = (if n < 10 then [char_of_digit n]
                 else show_nat (n div 10) @ [char_of_digit (n mod 10)])"
  by pat_completeness auto
termination
  by (relation "measure nat") auto

declare show_nat.simps [simp del]

primrec show_digits :: "nat \<Rightarrow> int \<Rightarrow> string" where
  "show_digits 0 m = []"
| "show_digits (Suc k) m = show_digits k (m div 10) @ [char_of_digit (m mod 10)]"

definition show_int :: "int \<Rightarrow> string" where
  "show_int i = (if i < 0 then CHR ''-'' # show_nat (- i) else show_nat i)"

fun read_nat :: "int \<Rightarrow> string \<Rightarrow> int option" where
  "read_nat acc [] = Some acc"
| "read_nat acc (c # cs) =
     (case digit_of c of None \<Rightarrow> None | Some d \<Rightarrow> read_nat (10 * acc + d) cs)"

text \<open>An unsigned decimal numeral with an optional fraction: \<open>12\<close>, \<open>12.5\<close>, \<open>12.\<close>, \<open>.5\<close>.\<close>

definition read_unsigned :: "string \<Rightarrow> real option" where
  "read_unsigned t =
     (let ip = takeWhile (\<lambda>c. c \<noteq> CHR ''.'') t;
          rest = dropWhile (\<lambda>c. c \<noteq> CHR ''.'') t;
          fp = (case rest of [] \<Rightarrow> [] | c # f \<Rightarrow> f)
      in if ip = [] \<and> fp = [] then None
         else case (read_nat 0 ip, read_nat 0 fp) of
                (Some a, Some b) \<Rightarrow> Some (real_of_int a + real_of_int b / 10 ^ length fp)
              | _ \<Rightarrow> None)"

definition decimal_float :: "string \<Rightarrow> real option" where
  "decimal_float t =
     (case t of
        [] \<Rightarrow> None
      | c # r \<Rightarrow>
          if c = CHR ''-'' then map_option uminus (read_unsigned r)
          else if c = CHR ''+'' then read_unsigned r
          else read_unsigned t)"

definition round_half_even :: "real \<Rightarrow> int" where
  "round_half_even x =
     (let f = \<lfloor>x\<rfloor>; d = x - real_of_int f
      in if d < 1 / 2 then f
         else if 1 / 2 < d then f + 1
         else if even f then f else f + 1)"

text \<open>The fixed-point format with \<open>d\<close> decimals, correctly rounded.\<close>

definition decimal_fixed :: "real \<Rightarrow> nat \<Rightarrow> string" where
  "decimal_fixed r d =
     (let m = round_half_even (\<bar>r\<bar> * 10 ^ d);
          body = show_nat (m div 10 ^ d) @
                 (if d = 0 then [] else CHR ''.'' # show_digits d (m mod 10 ^ d))
      in if r < 0 then CHR ''-'' # body else body)"

text \<open>\<^verbatim>\<open>"{0}".format\<close> of an integer, and of a float with an integral value (\<open>3.0\<close>).\<close>

fun decimal_str :: "real num \<Rightarrow> string" where
  "decimal_str (PyInt i) = show_int i"
| "decimal_str (PyFloat r) = decimal_fixed r 1"

definition exact_env :: "(real, complex) env" where
  "exact_env =
     \<lparr>c_pow = (\<lambda>z n. z powi sint n),
      c_add = (+),
      c_mul = (*),
      c_real = Re,
      c_imag = Im,
      c_complex = Complex,
      f_square = (\<lambda>x. x * x),
      f_add = (+),
      f_sub = (-),
      f_mul = (*),
      f_div = (/),
      f_gt = (\<lambda>a b. a > b),
      f_eq = (=),
      f_of_int = real_of_int,
      f_lit = (\<lambda>r. r),
      f_int = (\<lambda>r. Inr (trunc r)),
      int_eq_float = (\<lambda>i r. real_of_int i = r),
      int32_of = exact_int32,
      np_interp = interp,
      py_float = decimal_float,
      py_str = decimal_str,
      py_fixed = decimal_fixed\<rparr>"

section \<open>Properties of the iteration\<close>

lemma orbit_Suc: "orbit e z0 C n (Suc j) = orbit e (c_add e (c_pow e z0 n) C) C n j"
  unfolding orbit_def by (simp only: funpow_Suc_right o_apply)

lemma orbit_0: "orbit e z0 C n 0 = z0"
  by (simp add: orbit_def)

lemma iterate_loop_no_escape:
  assumes "\<forall>j < length ks. \<not> bailout e zmax (orbit e z C n (j + 1))"
  shows "iterate_loop e C n (f_square e zmax) z k ks = (if ks = [] then k else last ks)"
  using assms
proof (induction ks arbitrary: z k)
  case Nil
  then show ?case by simp
next
  case (Cons i rest)
  have first: "\<not> bailout e zmax (c_add e (c_pow e z n) C)"
    using Cons.prems [rule_format, of 0] by (simp add: orbit_Suc orbit_0)
  have later: "\<forall>j < length rest. \<not> bailout e zmax (orbit e (c_add e (c_pow e z n) C) C n (j + 1))"
  proof (intro allI impI)
    fix j assume "j < length rest"
    then have "Suc j < length (i # rest)" by simp
    from Cons.prems [rule_format, OF this]
    show "\<not> bailout e zmax (orbit e (c_add e (c_pow e z n) C) C n (j + 1))"
      by (simp add: orbit_Suc)
  qed
  show ?case
    using first Cons.IH [OF later, of i] by (simp add: Let_def bailout_def)
qed

lemma iterate_loop_first_escape:
  assumes "p < length ks"
    and "bailout e zmax (orbit e z C n (p + 1))"
    and "\<forall>j < p. \<not> bailout e zmax (orbit e z C n (j + 1))"
  shows "iterate_loop e C n (f_square e zmax) z k ks = ks ! p"
  using assms
proof (induction ks arbitrary: z k p)
  case Nil
  then show ?case by simp
next
  case (Cons i rest)
  show ?case
  proof (cases p)
    case 0
    with Cons.prems(2) show ?thesis
      by (simp add: orbit_Suc orbit_0 Let_def bailout_def)
  next
    case (Suc q)
    have first: "\<not> bailout e zmax (c_add e (c_pow e z n) C)"
      using Cons.prems(3) [rule_format, of 0] Suc by (simp add: orbit_Suc orbit_0)
    have q: "q < length rest" using Cons.prems(1) Suc by simp
    have esc: "bailout e zmax (orbit e (c_add e (c_pow e z n) C) C n (q + 1))"
      using Cons.prems(2) Suc by (simp add: orbit_Suc)
    have before: "\<forall>j < q. \<not> bailout e zmax (orbit e (c_add e (c_pow e z n) C) C n (j + 1))"
    proof (intro allI impI)
      fix j assume "j < q"
      then have "Suc j < p" using Suc by simp
      from Cons.prems(3) [rule_format, OF this]
      show "\<not> bailout e zmax (orbit e (c_add e (c_pow e z n) C) C n (j + 1))"
        by (simp add: orbit_Suc)
    qed
    show ?thesis
      using first Cons.IH [OF q esc before, of i] Suc by (simp add: Let_def bailout_def)
  qed
qed

lemma length_py_range: "length (py_range m) = nat m"
  by (simp add: py_range_def)

lemma nth_py_range: "int p < m \<Longrightarrow> py_range m ! p = int p"
  by (simp add: py_range_def)

lemma last_py_range: "1 \<le> m \<Longrightarrow> last (py_range m) = m - 1"
proof -
  assume m: "1 \<le> m"
  then have ne: "py_range m \<noteq> []" using length_py_range [of m] by auto
  have "last (py_range m) = py_range m ! (nat m - 1)"
    using ne by (simp add: last_conv_nth length_py_range)
  also have "\<dots> = int (nat m - 1)" using m by (intro nth_py_range) auto
  finally show ?thesis using m by simp
qed




lemma iterate_never_escapes:
  assumes "1 \<le> sint niter" and "\<forall>j. 0 \<le> j \<and> j < sint niter \<longrightarrow> \<not> escaped e z0 C n zmax j"
  shows "iterate e z0 C n zmax niter = sint niter - 1"
proof -
  have ne: "py_range (sint niter) \<noteq> []"
    using assms(1) length_py_range [of "sint niter"] by auto
  have "\<forall>j < length (py_range (sint niter)). \<not> bailout e zmax (orbit e z0 C n (j + 1))"
  proof (intro allI impI)
    fix j assume "j < length (py_range (sint niter))"
    then have "0 \<le> int j \<and> int j < sint niter" by (simp add: length_py_range)
    with assms(2) have "\<not> escaped e z0 C n zmax (int j)" by blast
    then show "\<not> bailout e zmax (orbit e z0 C n (j + 1))" by (simp add: escaped_def)
  qed
  from iterate_loop_no_escape [OF this, of 0]
  show ?thesis using ne assms(1) by (simp add: iterate_def last_py_range)
qed

lemma iterate_escapes_first:
  assumes "0 \<le> k" and "k < sint niter" and "escaped e z0 C n zmax k"
    and "\<forall>j. 0 \<le> j \<and> j < k \<longrightarrow> \<not> escaped e z0 C n zmax j"
  shows "iterate e z0 C n zmax niter = k"
proof -
  define p where "p = nat k"
  have k: "k = int p" using assms(1) by (simp add: p_def)
  have len: "p < length (py_range (sint niter))"
    using assms(1,2) by (simp add: length_py_range p_def)
  have esc: "bailout e zmax (orbit e z0 C n (p + 1))"
    using assms(3) unfolding k by (simp add: escaped_def)
  have before: "\<forall>j < p. \<not> bailout e zmax (orbit e z0 C n (j + 1))"
  proof (intro allI impI)
    fix j assume "j < p"
    then have "0 \<le> int j \<and> int j < k" using k by simp
    with assms(4) have "\<not> escaped e z0 C n zmax (int j)" by blast
    then show "\<not> bailout e zmax (orbit e z0 C n (j + 1))" by (simp add: escaped_def)
  qed
  have "py_range (sint niter) ! p = k" using assms(2) k by (simp add: nth_py_range)
  with iterate_loop_first_escape [OF len esc before, of 0]
  show ?thesis by (simp add: iterate_def)
qed

lemma first_escape_exists:
  assumes "0 \<le> j" and "j < m" and "escaped e z0 C n zmax j"
  shows "\<exists>k. 0 \<le> k \<and> k < m \<and> escaped e z0 C n zmax k \<and>
             (\<forall>i. 0 \<le> i \<and> i < k \<longrightarrow> \<not> escaped e z0 C n zmax i)"
proof -
  define P where "P p \<longleftrightarrow> escaped e z0 C n zmax (int p)" for p
  have "P (nat j)" using assms(1,3) by (simp add: P_def)
  define q where "q = (LEAST p. P p)"
  have Pq: "P q" unfolding q_def using \<open>P (nat j)\<close> by (rule LeastI)
  have le: "q \<le> nat j" unfolding q_def using \<open>P (nat j)\<close> by (rule Least_le)
  have least: "\<not> P i" if "i < q" for i
    using that not_less_Least unfolding q_def by blast
  have "\<forall>i. 0 \<le> i \<and> i < int q \<longrightarrow> \<not> escaped e z0 C n zmax i"
  proof (intro allI impI)
    fix i :: int assume i: "0 \<le> i \<and> i < int q"
    then have "nat i < q" by linarith
    from least [OF this] show "\<not> escaped e z0 C n zmax i" using i by (simp add: P_def)
  qed
  moreover have "0 \<le> int q" "int q < m" using le assms(1,2) by linarith+
  moreover have "escaped e z0 C n zmax (int q)" using Pq by (simp add: P_def)
  ultimately show ?thesis by blast
qed

lemma orbit_fixed: "c_add e (c_pow e z n) C = z \<Longrightarrow> orbit e z C n j = z"
  by (induction j) (simp_all add: orbit_0 orbit_Suc)



text \<open>
  C1. For \<open>n \<ge> 1\<close> and \<open>niter \<ge> 1\<close>, \<open>iterate\<close> returns an index \<open>k\<close> in \<open>[0, niter - 1]\<close>:
  the smallest index at which the value after the \<open>(k+1)\<close>-th application of
  \<open>z \<mapsto> z^n + C\<close> passes the bailout test of the source, and \<open>niter - 1\<close> when no index below
  \<open>niter\<close> does. In particular, when the orbit of \<open>0+0i\<close> under \<open>C = 0+0i\<close>, \<open>n = 2\<close> stays at
  zero and zero does not pass the test for \<open>zmax = 4\<close>, \<open>iterate(0, 0, 2, 4, 256) = 255\<close>.
\<close>

theorem iterate_first_escape:
  assumes "1 \<le> sint n" and "1 \<le> sint niter"
  shows "(let k = iterate e z0 C n zmax niter in
            0 \<le> k \<and> k \<le> sint niter - 1 \<and>
            (if \<exists>j. 0 \<le> j \<and> j < sint niter \<and> escaped e z0 C n zmax j
             then escaped e z0 C n zmax k \<and> (\<forall>j. 0 \<le> j \<and> j < k \<longrightarrow> \<not> escaped e z0 C n zmax j)
             else k = sint niter - 1))
         \<and> (let zero = c_complex e (f_lit e 0) (f_lit e 0) in
              c_add e (c_pow e zero 2) zero = zero \<longrightarrow> \<not> bailout e (f_lit e 4) zero \<longrightarrow>
              iterate e zero zero 2 (f_lit e 4) 256 = 255)"
proof
  show "let k = iterate e z0 C n zmax niter in
            0 \<le> k \<and> k \<le> sint niter - 1 \<and>
            (if \<exists>j. 0 \<le> j \<and> j < sint niter \<and> escaped e z0 C n zmax j
             then escaped e z0 C n zmax k \<and> (\<forall>j. 0 \<le> j \<and> j < k \<longrightarrow> \<not> escaped e z0 C n zmax j)
             else k = sint niter - 1)"
  proof (cases "\<exists>j. 0 \<le> j \<and> j < sint niter \<and> escaped e z0 C n zmax j")
    case True
    then obtain j where "0 \<le> j" "j < sint niter" "escaped e z0 C n zmax j" by blast
    from first_escape_exists [OF this] obtain k where
      k: "0 \<le> k" "k < sint niter" "escaped e z0 C n zmax k"
         "\<forall>i. 0 \<le> i \<and> i < k \<longrightarrow> \<not> escaped e z0 C n zmax i"
      by blast
    have "iterate e z0 C n zmax niter = k" by (rule iterate_escapes_first [OF k])
    with k True show ?thesis by (auto simp: Let_def)
  next
    case False
    then have "\<forall>j. 0 \<le> j \<and> j < sint niter \<longrightarrow> \<not> escaped e z0 C n zmax j" by blast
    from iterate_never_escapes [OF assms(2) this]
    show ?thesis using False assms(2) by (auto simp: Let_def)
  qed
  show "let zero = c_complex e (f_lit e 0) (f_lit e 0) in
          c_add e (c_pow e zero 2) zero = zero \<longrightarrow> \<not> bailout e (f_lit e 4) zero \<longrightarrow>
          iterate e zero zero 2 (f_lit e 4) 256 = 255"
    unfolding Let_def
  proof (intro impI)
    let ?zero = "c_complex e (f_lit e 0) (f_lit e 0)"
    assume fixed: "c_add e (c_pow e ?zero 2) ?zero = ?zero"
      and inside: "\<not> bailout e (f_lit e 4) ?zero"
    have "\<forall>j. 0 \<le> j \<and> j < sint (256 :: 32 word) \<longrightarrow> \<not> escaped e ?zero ?zero 2 (f_lit e 4) j"
      using inside by (simp add: escaped_def orbit_fixed [OF fixed])
    from iterate_never_escapes [OF _ this]
    show "iterate e ?zero ?zero 2 (f_lit e 4) 256 = 255" by simp
  qed
qed

lemma exact_env_sel [simp]:
  "c_pow exact_env = (\<lambda>z n. z powi sint n)" "c_add exact_env = (+)" "c_mul exact_env = (*)"
  "c_real exact_env = Re" "c_imag exact_env = Im" "c_complex exact_env = Complex"
  "f_square exact_env = (\<lambda>x. x * x)" "f_add exact_env = (+)" "f_sub exact_env = (-)"
  "f_mul exact_env = (*)" "f_div exact_env = (/)" "f_gt exact_env = (\<lambda>a b. a > b)"
  "f_eq exact_env = (=)" "f_of_int exact_env = real_of_int" "f_lit exact_env = (\<lambda>r. r)"
  "f_int exact_env = (\<lambda>r. Inr (trunc r))" "int_eq_float exact_env = (\<lambda>i r. real_of_int i = r)"
  "int32_of exact_env = exact_int32" "np_interp exact_env = interp"
  "py_float exact_env = decimal_float" "py_str exact_env = decimal_str"
  "py_fixed exact_env = decimal_fixed"
  by (simp_all add: exact_env_def)

lemma exact_escaped_0: "\<not> escaped exact_env (Complex 0 0) (Complex 2 0) 2 4 0"
  by (simp add: escaped_def bailout_def orbit_def)

lemma exact_escaped_1: "escaped exact_env (Complex 0 0) (Complex 2 0) 2 4 1"
  by (simp add: escaped_def bailout_def orbit_def numeral_2_eq_2 power2_eq_square)

theorem iterate_first_escape_witness:
  "(1::int) \<le> sint (2 :: 32 word) \<and> (1::int) \<le> sint (3 :: 32 word)
   \<and> iterate exact_env (Complex 0 0) (Complex 2 0) 2 4 3 = 1
   \<and> iterate exact_env (Complex 0 0) (Complex 0 0) 2 4 256 = 255"
proof -
  let ?k = "iterate exact_env (Complex 0 0) (Complex 2 0) 2 4 3"
  have ex: "\<exists>j. 0 \<le> j \<and> j < sint (3 :: 32 word) \<and> escaped exact_env (Complex 0 0) (Complex 2 0) 2 4 j"
    using exact_escaped_1 by (intro exI [of _ 1]) simp
  have main: "(let k = ?k in
            0 \<le> k \<and> k \<le> sint (3 :: 32 word) - 1 \<and>
            (if \<exists>j. 0 \<le> j \<and> j < sint (3 :: 32 word) \<and> escaped exact_env (Complex 0 0) (Complex 2 0) 2 4 j
             then escaped exact_env (Complex 0 0) (Complex 2 0) 2 4 k \<and>
                  (\<forall>j. 0 \<le> j \<and> j < k \<longrightarrow> \<not> escaped exact_env (Complex 0 0) (Complex 2 0) 2 4 j)
             else k = sint (3 :: 32 word) - 1))"
    and zero: "(let zero = c_complex exact_env (f_lit exact_env 0) (f_lit exact_env 0) in
              c_add exact_env (c_pow exact_env zero 2) zero = zero \<longrightarrow>
              \<not> bailout exact_env (f_lit exact_env 4) zero \<longrightarrow>
              iterate exact_env zero zero 2 (f_lit exact_env 4) 256 = 255)"
    using iterate_first_escape [of 2 3 exact_env "Complex 0 0" "Complex 2 0" 4] by simp_all
  from main ex have k0: "0 \<le> ?k" and esc: "escaped exact_env (Complex 0 0) (Complex 2 0) 2 4 ?k"
    and least: "\<forall>j. 0 \<le> j \<and> j < ?k \<longrightarrow> \<not> escaped exact_env (Complex 0 0) (Complex 2 0) 2 4 j"
    by (simp_all add: Let_def)
  have "?k \<le> 1"
  proof (rule ccontr)
    assume "\<not> ?k \<le> 1"
    then have "0 \<le> (1::int) \<and> 1 < ?k" by simp
    with least exact_escaped_1 show False by blast
  qed
  with k0 have "?k = 0 \<or> ?k = 1" by linarith
  with esc exact_escaped_0 have k1: "?k = 1" by auto
  have "iterate exact_env (Complex 0 0) (Complex 0 0) 2 4 256 = 255"
    using zero by (simp add: Let_def bailout_def complex_eq_iff)
  with k1 show ?thesis by simp
qed




section \<open>Properties of the whole-grid evaluation\<close>

lemma compute_image_eval:
  assumes "attrs s ''x'' = Some vx" and "attrs s ''y'' = Some vy"
    and "attrs s ''xmin'' = Some vxmin" and "attrs s ''xmax'' = Some vxmax"
    and "attrs s ''ymin'' = Some vymin" and "attrs s ''ymax'' = Some vymax"
    and "attrs s ''xsize'' = Some (PyInt w)" and "attrs s ''ysize'' = Some (PyInt h)"
    and "attrs s ''n'' = Some (PyInt n)" and "attrs s ''zmax'' = Some vzmax"
    and "attrs s ''niter'' = Some (PyInt niter)"
    and "int32_of e n = Inr n32" and "int32_of e niter = Inr niter32"
    and "complex_grid e (to_float e vxmin, to_float e vxmax) (to_float e vymin, to_float e vymax) w h
           = Inr grid"
  shows "compute_image e s =
      (if namecombo s = Some ''Julia'' then
         Inr (Some (fractal e (Array grid) (Scalar (c_complex e (to_float e vx) (to_float e vy)))
                      n32 (to_float e vzmax) niter32))
       else if namecombo s = Some ''Mandelbrot'' then
         Inr (Some (fractal e (Scalar (c_complex e (to_float e vx) (to_float e vy))) (Array grid)
                      n32 (to_float e vzmax) niter32))
       else Inr None)"
  using assms
  by (simp add: compute_image_def bind_err_def getattr_def getattr_int_def as_int_def Let_def)

text \<open>
  C2. Let the object hold the parameters \<open>C = x + y i\<close>, \<open>n\<close>, \<open>zmax\<close>, \<open>niter\<close> and let \<open>grid\<close> be
  the sample grid of its bounds and resolution. In Julia mode \<^verbatim>\<open>compute_image\<close> yields the
  matrix of \<open>iterate(z0 = g, C, n, zmax, niter)\<close> over the grid points \<open>g\<close>; in Mandelbrot mode it
  yields the matrix of \<open>iterate(z0 = C, C = g, n, zmax, niter)\<close>. Either matrix has the shape of
  the grid. The same holds of \<^verbatim>\<open>fractal\<close> on any grid of complex points.
\<close>

theorem compute_image_modes:
  assumes "attrs s ''x'' = Some vx" and "attrs s ''y'' = Some vy"
    and "attrs s ''xmin'' = Some vxmin" and "attrs s ''xmax'' = Some vxmax"
    and "attrs s ''ymin'' = Some vymin" and "attrs s ''ymax'' = Some vymax"
    and "attrs s ''xsize'' = Some (PyInt w)" and "attrs s ''ysize'' = Some (PyInt h)"
    and "attrs s ''n'' = Some (PyInt n)" and "attrs s ''zmax'' = Some vzmax"
    and "attrs s ''niter'' = Some (PyInt niter)"
    and "int32_of e n = Inr n32" and "int32_of e niter = Inr niter32"
    and "complex_grid e (to_float e vxmin, to_float e vxmax) (to_float e vymin, to_float e vymax) w h
           = Inr grid"
    and "C = c_complex e (to_float e vx) (to_float e vy)" and "zmax = to_float e vzmax"
  shows "(namecombo s = Some ''Julia'' \<longrightarrow>
            (\<exists>m. compute_image e s = Inr (Some (Array m)) \<and>
                 m = map (map (\<lambda>g. iterate e g C n32 zmax niter32)) grid \<and>
                 map length m = map length grid))
       \<and> (namecombo s = Some ''Mandelbrot'' \<longrightarrow>
            (\<exists>m. compute_image e s = Inr (Some (Array m)) \<and>
                 m = map (map (\<lambda>g. iterate e C g n32 zmax niter32)) grid \<and>
                 map length m = map length grid))
       \<and> fractal e (Array any_grid) (Scalar C) n32 zmax niter32 =
            Array (map (map (\<lambda>g. iterate e g C n32 zmax niter32)) any_grid)
       \<and> fractal e (Scalar C) (Array any_grid) n32 zmax niter32 =
            Array (map (map (\<lambda>g. iterate e C g n32 zmax niter32)) any_grid)"
  using compute_image_eval [OF assms(1-14)] assms(15,16)
  by (simp add: comp_def)

lemma exact_grid_point [simp]: "grid_point exact_env a b = Complex a b"
  by (simp add: grid_point_def complex_eq_iff)

lemma exact_complex_grid_3x3:
  "complex_grid exact_env (-1, 1) (-1, 1) 3 3 =
     Inr [[Complex (-1) (-1), Complex 0 (-1), Complex 1 (-1)],
          [Complex (-1) 0, Complex 0 0, Complex 1 0],
          [Complex (-1) 1, Complex 0 1, Complex 1 1]]"
  by (simp add: complex_grid_def meshgrid_def linspace_def py_range_def upto.simps Let_def)

lemma exact_int32_small [simp]: "exact_int32 2 = Inr 2" "exact_int32 256 = Inr 256"
  by (simp_all add: exact_int32_def)

theorem compute_image_modes_witness:
  "compute_image exact_env
     \<lparr>attrs = [''x'' \<mapsto> PyFloat (-0.5), ''y'' \<mapsto> PyFloat 0.5,
               ''xmin'' \<mapsto> PyFloat (-1), ''xmax'' \<mapsto> PyFloat 1,
               ''ymin'' \<mapsto> PyFloat (-1), ''ymax'' \<mapsto> PyFloat 1,
               ''xsize'' \<mapsto> PyInt 3, ''ysize'' \<mapsto> PyInt 3,
               ''n'' \<mapsto> PyInt 2, ''zmax'' \<mapsto> PyFloat 4, ''niter'' \<mapsto> PyInt 256],
      pos_alias = False, entries = [], namecombo = Some ''Mandelbrot'', cmap = ''Set3'',
      fig = None, draws = 0\<rparr>
   = Inr (Some (Array (map (map (\<lambda>g. iterate exact_env (Complex (-0.5) 0.5) g 2 4 256))
        [[Complex (-1) (-1), Complex 0 (-1), Complex 1 (-1)],
         [Complex (-1) 0, Complex 0 0, Complex 1 0],
         [Complex (-1) 1, Complex 0 1, Complex 1 1]])))"
proof -
  let ?s = "\<lparr>attrs = [''x'' \<mapsto> PyFloat (-0.5), ''y'' \<mapsto> PyFloat 0.5,
               ''xmin'' \<mapsto> PyFloat (-1), ''xmax'' \<mapsto> PyFloat 1,
               ''ymin'' \<mapsto> PyFloat (-1), ''ymax'' \<mapsto> PyFloat 1,
               ''xsize'' \<mapsto> PyInt 3, ''ysize'' \<mapsto> PyInt 3,
               ''n'' \<mapsto> PyInt 2, ''zmax'' \<mapsto> PyFloat (4::real), ''niter'' \<mapsto> PyInt 256],
      pos_alias = False, entries = [], namecombo = Some ''Mandelbrot'', cmap = ''Set3'',
      fig = None, draws = 0\<rparr>"
  have g: "complex_grid exact_env (to_float exact_env (PyFloat (-1)), to_float exact_env (PyFloat 1))
             (to_float exact_env (PyFloat (-1)), to_float exact_env (PyFloat 1)) 3 3 =
           Inr [[Complex (-1) (-1), Complex 0 (-1), Complex 1 (-1)],
                [Complex (-1) 0, Complex 0 0, Complex 1 0],
                [Complex (-1) 1, Complex 0 1, Complex 1 1]]"
    by (simp add: exact_complex_grid_3x3)
  have "namecombo ?s = Some ''Mandelbrot''" by simp
  with compute_image_modes [of ?s "PyFloat (-0.5)" "PyFloat 0.5" "PyFloat (-1)" "PyFloat 1"
      "PyFloat (-1)" "PyFloat 1" 3 3 2 "PyFloat 4" 256 exact_env 2 256,
      OF _ _ _ _ _ _ _ _ _ _ _ _ _ g refl refl]
  show ?thesis by simp
qed

section \<open>Frame properties of the helpers\<close>

lemma state_of_then_do:
  "state_of (then_do r f) = (case r of Raised err s \<Rightarrow> s | Done s \<Rightarrow> state_of (f s))"
  by (cases r) (simp_all add: then_do_def)

lemma state_of_try_get:
  "state_of (try_get s m f) = (case m of Inl err \<Rightarrow> s | Inr v \<Rightarrow> state_of (f v))"
  by (cases m) (simp_all add: try_get_def)

lemma map_fst_set_text [simp]: "map fst (set_text name text es) = map fst es"
  by (induction es) (auto simp: set_text_def)

lemma set_text_same: "(name, t) \<in> set (set_text name text es) \<Longrightarrow> t = text"
  by (induction es) (auto simp: set_text_def split: if_splits)

lemma set_text_other:
  "k \<noteq> name \<Longrightarrow> (k, t) \<in> set (set_text name text es) \<longleftrightarrow> (k, t) \<in> set es"
  by (induction es) (auto simp: set_text_def split: if_splits)

lemma setattr_simps [simp]:
  "attrs (setattr name v s) = (attrs s)(name \<mapsto> v)"
  "entries (setattr name v s) = entries s"
  "fig (setattr name v s) = fig s"
  "draws (setattr name v s) = draws s"
  "namecombo (setattr name v s) = namecombo s"
  "cmap (setattr name v s) = cmap s"
  "pos_alias (setattr name v s) = pos_alias s"
  by (simp_all add: setattr_def)

lemma draw_idle_simps [simp]:
  "attrs (draw_idle s) = attrs s"
  "entries (draw_idle s) = entries s"
  "fig (draw_idle s) = fig s"
  "draws (draw_idle s) = draws s + 1"
  "namecombo (draw_idle s) = namecombo s"
  "cmap (draw_idle s) = cmap s"
  "pos_alias (draw_idle s) = pos_alias s"
  by (simp_all add: draw_idle_def)

lemma set_entry_value_cases:
  "(\<exists>err. set_entry_value e name s = Raised err s) \<or>
   (\<exists>v txt. attrs s name = Some v \<and> format_value e v = Inr txt \<and>
        set_entry_value e name s = Done (s\<lparr>entries := set_text name txt (entries s)\<rparr>))"
  by (auto simp: set_entry_value_def try_get_def getattr_def split: option.splits sum.splits)

text \<open>Two states that differ at most in the texts of the entries.\<close>

lemma set_entry_value_frame:
  "attrs (state_of (set_entry_value e name s)) = attrs s \<and>
   fig (state_of (set_entry_value e name s)) = fig s \<and>
   draws (state_of (set_entry_value e name s)) = draws s \<and>
   namecombo (state_of (set_entry_value e name s)) = namecombo s \<and>
   cmap (state_of (set_entry_value e name s)) = cmap s \<and>
   pos_alias (state_of (set_entry_value e name s)) = pos_alias s \<and>
   map fst (entries (state_of (set_entry_value e name s))) = map fst (entries s)"
  using set_entry_value_cases [of e name s] by auto

lemma set_entry_values_frame:
  "attrs (state_of (set_entry_values e names s)) = attrs s \<and>
   fig (state_of (set_entry_values e names s)) = fig s \<and>
   draws (state_of (set_entry_values e names s)) = draws s \<and>
   namecombo (state_of (set_entry_values e names s)) = namecombo s \<and>
   cmap (state_of (set_entry_values e names s)) = cmap s \<and>
   pos_alias (state_of (set_entry_values e names s)) = pos_alias s \<and>
   map fst (entries (state_of (set_entry_values e names s))) = map fst (entries s)"
proof (induction names arbitrary: s)
  case Nil
  then show ?case by simp
next
  case (Cons name rest)
  show ?case
  proof (cases "set_entry_value e name s")
    case (Done s')
    with set_entry_value_frame [of e name s] Cons.IH [of s'] show ?thesis
      by (simp add: then_do_def)
  next
    case (Raised err s')
    with set_entry_value_frame [of e name s] show ?thesis
      by (simp add: then_do_def)
  qed
qed

lemma display_image_frame:
  "attrs (state_of (display_image e s)) = attrs s \<and>
   entries (state_of (display_image e s)) = entries s \<and>
   namecombo (state_of (display_image e s)) = namecombo s \<and>
   cmap (state_of (display_image e s)) = cmap s \<and>
   pos_alias (state_of (display_image e s)) = pos_alias s \<and>
   draws (state_of (display_image e s)) = draws s"
  by (simp add: display_image_def try_get_def split: sum.splits option.splits)

lemma read_entries_frame:
  "entries (state_of (read_entries e es s)) = entries s \<and>
   fig (state_of (read_entries e es s)) = fig s \<and>
   draws (state_of (read_entries e es s)) = draws s \<and>
   namecombo (state_of (read_entries e es s)) = namecombo s \<and>
   cmap (state_of (read_entries e es s)) = cmap s \<and>
   pos_alias (state_of (read_entries e es s)) = pos_alias s"
proof (induction es arbitrary: s)
  case Nil
  then show ?case by simp
next
  case (Cons p rest)
  obtain k t where p: "p = (k, t)" by (cases p)
  show ?case
  proof (cases "get_entry_value e t (dtype_of k)")
    case (Inl err)
    then show ?thesis by (simp add: p try_get_def)
  next
    case (Inr val)
    then show ?thesis
      using Cons.IH [of "case val of None \<Rightarrow> s | Some v \<Rightarrow> setattr k v s"]
      by (cases val) (simp_all add: p try_get_def)
  qed
qed

lemma read_entries_attr:
  assumes "R (attrs s name)"
    and "\<And>t v. (name, t) \<in> set es \<Longrightarrow> get_entry_value e t (dtype_of name) = Inr (Some v)
           \<Longrightarrow> R (Some v)"
  shows "R (attrs (state_of (read_entries e es s)) name)"
  using assms
proof (induction es arbitrary: s)
  case Nil
  then show ?case by simp
next
  case (Cons p rest)
  obtain k t where p: "p = (k, t)" by (cases p)
  show ?case
  proof (cases "get_entry_value e t (dtype_of k)")
    case (Inl err)
    then show ?thesis using Cons.prems(1) by (simp add: p try_get_def)
  next
    case (Inr val)
    let ?s' = "case val of None \<Rightarrow> s | Some v \<Rightarrow> setattr k v s"
    have R': "R (attrs ?s' name)"
    proof (cases val)
      case None
      then show ?thesis using Cons.prems(1) by simp
    next
      case (Some v)
      show ?thesis
      proof (cases "k = name")
        case True
        with Inr Some Cons.prems(2) [of t v] show ?thesis by (simp add: p)
      next
        case False
        with Some Cons.prems(1) show ?thesis by simp
      qed
    qed
    have "R (attrs (state_of (read_entries e rest ?s')) name)"
    proof (rule Cons.IH [OF R'])
      fix t' v assume "(name, t') \<in> set rest"
        and "get_entry_value e t' (dtype_of name) = Inr (Some v)"
      then show "R (Some v)" using Cons.prems(2) [of t' v] by simp
    qed
    then show ?thesis using Inr by (simp add: p try_get_def)
  qed
qed

lemma update_image_attrs:
  "attrs (state_of (update_image e s)) = attrs (state_of (read_entries e (entries s) s))"
proof (cases "read_entries e (entries s) s")
  case (Raised err s1)
  then show ?thesis by (simp add: update_image_def then_do_def)
next
  case (Done s1)
  show ?thesis
  proof (cases "set_entry_values e (map fst (entries s1)) s1")
    case (Raised err s2)
    with Done set_entry_values_frame [of e "map fst (entries s1)" s1] show ?thesis
      by (simp add: update_image_def then_do_def)
  next
    case sev: (Done s2)
    have a2: "attrs s2 = attrs s1"
      using sev set_entry_values_frame [of e "map fst (entries s1)" s1] by simp
    show ?thesis
    proof (cases "display_image e s2")
      case (Raised err s3)
      with Done sev a2 display_image_frame [of e s2] show ?thesis
        by (simp add: update_image_def then_do_def)
    next
      case di: (Done s3)
      with Done sev a2 display_image_frame [of e s2] show ?thesis
        by (simp add: update_image_def then_do_def)
    qed
  qed
qed

section \<open>Parameter parsing\<close>

lemma get_entry_value_parse_error:
  "py_float e text = None \<Longrightarrow> get_entry_value e text dt = Inr None"
  by (simp add: get_entry_value_def)

lemma get_entry_value_failure:
  assumes "py_float e text = None \<or>
           (dt = DInt \<and> (\<exists>val err. py_float e text = Some val \<and> f_int e val = Inl err))"
  shows "get_entry_value e text dt = Inr None \<or> (\<exists>err. get_entry_value e text dt = Inl err)"
proof -
  from assms consider "py_float e text = None"
    | val err where "dt = DInt" "py_float e text = Some val" "f_int e val = Inl err"
    by auto
  then show ?thesis
  proof cases
    case 1
    then show ?thesis by (simp add: get_entry_value_def)
  next
    case 2
    then show ?thesis by (cases "err = ValueError") (simp_all add: get_entry_value_def)
  qed
qed

text \<open>
  C7. Let an entry hold a text that does not parse as a number of its field's kind:
  \<^verbatim>\<open>float(text)\<close> raises \<open>ValueError\<close>, or the field is an integer field and \<^verbatim>\<open>int(float(text))\<close>
  raises. Then \<^verbatim>\<open>get_entry_value\<close> reports the failure (it returns \<open>None\<close>, always so when
  \<^verbatim>\<open>float(text)\<close> fails, or the exception propagates), and after \<^verbatim>\<open>update_image\<close> the field holds
  the value it held before.
\<close>

theorem parse_failure_keeps_field:
  assumes "(name, text) \<in> set (entries s)" and "distinct (map fst (entries s))"
    and "py_float e text = None \<or>
         (dtype_of name = DInt \<and> (\<exists>val err. py_float e text = Some val \<and> f_int e val = Inl err))"
  shows "(get_entry_value e text (dtype_of name) = Inr None \<or>
          (\<exists>err. get_entry_value e text (dtype_of name) = Inl err))
         \<and> (py_float e text = None \<longrightarrow> get_entry_value e text (dtype_of name) = Inr None)
         \<and> attrs (state_of (update_image e s)) name = attrs s name"
proof -
  have fail: "get_entry_value e text (dtype_of name) = Inr None \<or>
          (\<exists>err. get_entry_value e text (dtype_of name) = Inl err)"
    using assms(3) by (rule get_entry_value_failure)
  have uniq: "t = text" if "(name, t) \<in> set (entries s)" for t
    using that assms(1,2) by (meson eq_key_imp_eq_value)
  have "attrs (state_of (read_entries e (entries s) s)) name = attrs s name"
  proof (rule read_entries_attr [where R = "\<lambda>a. a = attrs s name"])
    show "attrs s name = attrs s name" ..
  next
    fix t v assume "(name, t) \<in> set (entries s)"
      and "get_entry_value e t (dtype_of name) = Inr (Some v)"
    with uniq fail show "Some v = attrs s name" by auto
  qed
  with fail show ?thesis by (simp add: update_image_attrs get_entry_value_parse_error)
qed

lemma decimal_float_abc: "decimal_float ''abc'' = None"
  by (simp add: decimal_float_def read_unsigned_def digit_of_def)

theorem parse_failure_keeps_field_witness:
  "attrs (state_of (update_image exact_env
      \<lparr>attrs = [''n'' \<mapsto> PyInt 2, ''zmax'' \<mapsto> PyFloat 4], pos_alias = False,
       entries = [(''n'', ''abc''), (''zmax'', ''8'')], namecombo = Some ''Julia'',
       cmap = ''Set3'', fig = None, draws = 0\<rparr>)) ''n'' = Some (PyInt 2)"
  using parse_failure_keeps_field [of "''n''" "''abc''"
      "\<lparr>attrs = [''n'' \<mapsto> PyInt 2, ''zmax'' \<mapsto> PyFloat (4::real)], pos_alias = False,
       entries = [(''n'', ''abc''), (''zmax'', ''8'')], namecombo = Some ''Julia'',
       cmap = ''Set3'', fig = None, draws = 0\<rparr>" exact_env]
  by (simp add: decimal_float_abc)

section \<open>Mode switch\<close>

lemma format_value_int: "format_value e (PyInt i) = Inr (py_str e (PyInt i))"
  by (simp add: format_value_def bind_err_def)

lemma entry_lookup_set_entry_value:
  assumes "attrs s name = Some (PyInt i)"
  shows "attrs (state_of (entry_lookup s name (\<lambda>k. set_entry_value e k s))) = attrs s"
    and "entry_lookup s name (\<lambda>k. set_entry_value e k s) = Done s' \<Longrightarrow>
           s' = s\<lparr>entries := set_text name (py_str e (PyInt i)) (entries s)\<rparr>"
  using assms
  by (auto simp: entry_lookup_def set_entry_value_def try_get_def getattr_def format_value_int
      split: if_splits)

lemma mandelbrot_texts:
  fixes e :: "('f, 'c) env" and s2 :: "'f app"
  assumes x: "attrs s2 ''x'' = Some (PyInt 0)" and y: "attrs s2 ''y'' = Some (PyInt 0)"
  defines "r \<equiv> then_do (entry_lookup s2 ''x'' (\<lambda>name. set_entry_value e name s2))
                 (\<lambda>s3. entry_lookup s3 ''y'' (\<lambda>name. set_entry_value e name s3))"
  shows "attrs (state_of r) = attrs s2"
    and "fig (state_of r) = fig s2"
    and "r = Done s4 \<Longrightarrow> (''x'', t) \<in> set (entries s4) \<Longrightarrow> t = py_str e (PyInt 0)"
    and "r = Done s4 \<Longrightarrow> (''y'', t) \<in> set (entries s4) \<Longrightarrow> t = py_str e (PyInt 0)"
proof -
  let ?rx = "entry_lookup s2 ''x'' (\<lambda>name. set_entry_value e name s2)"
  let ?s3 = "s2\<lparr>entries := set_text ''x'' (py_str e (PyInt 0)) (entries s2)\<rparr>"
  let ?ry = "entry_lookup ?s3 ''y'' (\<lambda>name. set_entry_value e name ?s3)"
  let ?s4 = "?s3\<lparr>entries := set_text ''y'' (py_str e (PyInt 0)) (entries ?s3)\<rparr>"
  have y3: "attrs ?s3 ''y'' = Some (PyInt 0)" using y by simp
  consider err s' where "?rx = Raised err s'" | "?rx = Done ?s3"
    using entry_lookup_set_entry_value(2) [OF x, of e] by (cases ?rx) auto
  then have "attrs (state_of r) = attrs s2 \<and> fig (state_of r) = fig s2 \<and>
      (r = Done s4 \<longrightarrow> s4 = ?s4)"
  proof cases
    case 1
    have "attrs s' = attrs s2" using entry_lookup_set_entry_value(1) [OF x, of e] 1 by simp
    moreover have "fig s' = fig s2"
      using 1 by (auto simp: entry_lookup_def set_entry_value_def try_get_def
          split: if_splits sum.splits)
    ultimately show ?thesis using 1 by (simp add: r_def then_do_def)
  next
    case 2
    then have r: "r = ?ry" by (simp add: r_def then_do_def)
    consider err s' where "?ry = Raised err s'" | "?ry = Done ?s4"
      using entry_lookup_set_entry_value(2) [OF y3, of e] by (cases ?ry) auto
    then show ?thesis
    proof cases
      case 1
      have "attrs s' = attrs ?s3"
        using entry_lookup_set_entry_value(1) [OF y3, of e] 1 by simp
      moreover have "fig s' = fig ?s3"
        using 1 by (auto simp: entry_lookup_def set_entry_value_def try_get_def
            split: if_splits sum.splits)
      ultimately show ?thesis using 1 r by simp
    next
      case 2
      then show ?thesis using r by simp
    qed
  qed
  then have a: "attrs (state_of r) = attrs s2" and f: "fig (state_of r) = fig s2"
    and s4: "r = Done s4 \<Longrightarrow> s4 = ?s4"
    by simp_all
  show "attrs (state_of r) = attrs s2" by (rule a)
  show "fig (state_of r) = fig s2" by (rule f)
  show "t = py_str e (PyInt 0)" if "r = Done s4" "(''x'', t) \<in> set (entries s4)"
  proof -
    have "(''x'', t) \<in> set (set_text ''y'' (py_str e (PyInt 0))
             (set_text ''x'' (py_str e (PyInt 0)) (entries s2)))"
      using that s4 by simp
    then have "(''x'', t) \<in> set (set_text ''x'' (py_str e (PyInt 0)) (entries s2))"
      by (simp add: set_text_other)
    then show ?thesis by (rule set_text_same)
  qed
  show "t = py_str e (PyInt 0)" if "r = Done s4" "(''y'', t) \<in> set (entries s4)"
  proof -
    have "(''y'', t) \<in> set (set_text ''y'' (py_str e (PyInt 0))
             (set_text ''x'' (py_str e (PyInt 0)) (entries s2)))"
      using that s4 by simp
    then show ?thesis by (rule set_text_same)
  qed
qed

lemma dtype_of_xy [simp]: "dtype_of ''x'' = DFloat" "dtype_of ''y'' = DFloat"
  by (simp_all add: dtype_of_def int_names_def)

lemma update_image_zero_attr:
  assumes "name = ''x'' \<or> name = ''y''"
    and "attrs s name = Some (PyInt 0)"
    and "\<And>t. (name, t) \<in> set (entries s) \<Longrightarrow> t = py_str e (PyInt 0)"
    and "py_float e (py_str e (PyInt 0)) = Some (f_of_int e 0)"
  shows "attrs (state_of (update_image e s)) name = Some (PyInt 0) \<or>
         attrs (state_of (update_image e s)) name = Some (PyFloat (f_of_int e 0))"
  unfolding update_image_attrs
proof (rule read_entries_attr
    [where R = "\<lambda>a. a = Some (PyInt 0) \<or> a = Some (PyFloat (f_of_int e 0))"])
  show "attrs s name = Some (PyInt 0) \<or> attrs s name = Some (PyFloat (f_of_int e 0))"
    using assms(2) by simp
next
  fix t v assume "(name, t) \<in> set (entries s)"
    and g: "get_entry_value e t (dtype_of name) = Inr (Some v)"
  then have "t = py_str e (PyInt 0)" using assms(3) by simp
  with g assms(1,4) have "v = PyFloat (f_of_int e 0)"
    by (auto simp: get_entry_value_def)
  then show "Some v = Some (PyInt 0) \<or> Some v = Some (PyFloat (f_of_int e 0))" by simp
qed

text \<open>
  C9. Whenever the mode selector is switched to \<open>Mandelbrot\<close>, the attributes \<open>x\<close> and \<open>y\<close> are
  zero afterwards, whatever they held before: the integer \<open>0\<close> that the handler assigns, or
  the float \<open>0.0\<close> read back from the entry text when the image is updated. (The text shown
  for \<open>0\<close> parses to \<open>0.0\<close>.)
\<close>

theorem mandelbrot_resets_C:
  assumes "py_float e (py_str e (PyInt 0)) = Some (f_of_int e 0)"
  shows "let s' = state_of (handle e (ModeChanged ''Mandelbrot'') s) in
           (attrs s' ''x'' = Some (PyInt 0) \<or> attrs s' ''x'' = Some (PyFloat (f_of_int e 0))) \<and>
           (attrs s' ''y'' = Some (PyInt 0) \<or> attrs s' ''y'' = Some (PyFloat (f_of_int e 0)))"
proof -
  define s0 where "s0 = s\<lparr>namecombo := Some ''Mandelbrot''\<rparr>"
  define s2 where "s2 = setattr ''y'' (PyInt 0) (setattr ''x'' (PyInt 0) s0)"
  define r where "r = then_do (entry_lookup s2 ''x'' (\<lambda>name. set_entry_value e name s2))
                 (\<lambda>s3. entry_lookup s3 ''y'' (\<lambda>name. set_entry_value e name s3))"
  have x2: "attrs s2 ''x'' = Some (PyInt 0)" and y2: "attrs s2 ''y'' = Some (PyInt 0)"
    by (simp_all add: s2_def)
  note mt = mandelbrot_texts [OF x2 y2, of e, folded r_def]
  have h: "on_namecombo_changed e (s\<lparr>namecombo := Some ''Mandelbrot''\<rparr>) =
      then_do r (\<lambda>s4. if fig s4 \<noteq> None then update_image e s4 else Done s4)"
    by (simp add: on_namecombo_changed_def Let_def r_def s2_def s0_def)
  have "(attrs (state_of (handle e (ModeChanged ''Mandelbrot'') s)) name = Some (PyInt 0) \<or>
         attrs (state_of (handle e (ModeChanged ''Mandelbrot'') s)) name
           = Some (PyFloat (f_of_int e 0)))"
    if name: "name = ''x'' \<or> name = ''y''" for name
  proof (cases r)
    case (Raised err s')
    then have "attrs s' = attrs s2" using mt(1) by simp
    with Raised name x2 y2 show ?thesis by (auto simp: h then_do_def)
  next
    case (Done s4)
    then have a4: "attrs s4 = attrs s2" using mt(1) by simp
    have n4: "attrs s4 name = Some (PyInt 0)" using a4 name x2 y2 by auto
    show ?thesis
    proof (cases "fig s4 = None")
      case True
      with Done n4 show ?thesis by (simp add: h then_do_def)
    next
      case False
      have "t = py_str e (PyInt 0)" if "(name, t) \<in> set (entries s4)" for t
        using that name mt(3) [OF Done] mt(4) [OF Done] by auto
      from update_image_zero_attr [OF name n4 this assms]
      show ?thesis using Done False by (simp add: h then_do_def)
    qed
  qed
  from this [of "''x''"] this [of "''y''"] show ?thesis by (simp add: Let_def)
qed

lemma decimal_zero: "decimal_float (show_int 0) = Some 0"
  by (simp add: decimal_float_def read_unsigned_def digit_of_def show_int_def show_nat.simps
      char_of_digit_def)

theorem mandelbrot_resets_C_witness:
  "(let s' = state_of (handle exact_env (ModeChanged ''Mandelbrot'')
        \<lparr>attrs = [''x'' \<mapsto> PyFloat (-0.5), ''y'' \<mapsto> PyFloat 0.5], pos_alias = False,
         entries = [(''x'', ''-0.5''), (''y'', ''0.5'')], namecombo = Some ''Julia'',
         cmap = ''Set3'', fig = None, draws = 0\<rparr>) in
      (attrs s' ''x'' = Some (PyInt 0) \<or> attrs s' ''x'' = Some (PyFloat 0)) \<and>
      (attrs s' ''y'' = Some (PyInt 0) \<or> attrs s' ''y'' = Some (PyFloat 0)))"
  using mandelbrot_resets_C [of exact_env
        "\<lparr>attrs = [''x'' \<mapsto> PyFloat (-0.5), ''y'' \<mapsto> PyFloat 0.5], pos_alias = False,
         entries = [(''x'', ''-0.5''), (''y'', ''0.5'')], namecombo = Some ''Julia'',
         cmap = ''Set3'', fig = None, draws = 0\<rparr>"]
  by (simp add: decimal_zero)

end
